theory Spec2Isabelle
  imports Main "HOL-Library.AList"
begin

section \<open>JavaScript values\<close>

text \<open>
  The three modules \<^verbatim>\<open>src/sdk/invoice/log/log.js\<close>,
  \<^verbatim>\<open>src/sdk/corporateCard/log/log.js\<close> and
  \<^verbatim>\<open>src/sdk/utilityPayment/log/log.js\<close> move JavaScript values around without
  computing on them. A value is \<^verbatim>\<open>undefined\<close>, \<^verbatim>\<open>null\<close>, a boolean, a
  number (only integer-valued numbers such as \<^verbatim>\<open>limit\<close> occur), a string, a
  \<^verbatim>\<open>Date\<close> (its time value in milliseconds), an array, or an object: the list of
  its own properties in insertion order, each key at most once.
\<close>

datatype jsval =
    Undefined
  | Null
  | Bool bool
  | Num int
  | Str string
  | Date int
  | Arr "jsval list"
  | Obj "(string \<times> jsval) list"

datatype error =
    TypeError
  | ValidationError
  | NotFound
  | AuthError
  | TransportError
  | RateLimitError

text \<open>
  Reading a property \<^verbatim>\<open>v.k\<close> of a value that is neither \<^verbatim>\<open>null\<close> nor
  \<^verbatim>\<open>undefined\<close>: an object yields the stored value or \<^verbatim>\<open>undefined\<close>; the keys
  read by the modules are not properties of a primitive or of an array.
\<close>

fun get_prop :: "jsval \<Rightarrow> string \<Rightarrow> jsval" where
  "get_prop (Obj kvs) k = (case map_of kvs k of Some v \<Rightarrow> v | None \<Rightarrow> Undefined)"
| "get_prop _ k = Undefined"

text \<open>
  A destructuring parameter \<^verbatim>\<open>{a, b}\<close> throws a TypeError when the argument is
  \<^verbatim>\<open>null\<close> or \<^verbatim>\<open>undefined\<close>. With the default \<^verbatim>\<open>= {}\<close> an
  \<^verbatim>\<open>undefined\<close> (or missing) argument is replaced by the empty object first;
  \<^verbatim>\<open>null\<close> still throws.
\<close>

fun destructure :: "jsval \<Rightarrow> error + jsval" where
  "destructure Undefined = Inl TypeError"
| "destructure Null = Inl TypeError"
| "destructure v = Inr v"

fun destructure_default :: "jsval \<Rightarrow> error + jsval" where
  "destructure_default Undefined = Inr (Obj [])"
| "destructure_default v = destructure v"

text \<open>A binding with a default, \<^verbatim>\<open>{limit = null}\<close> or \<^verbatim>\<open>id = null\<close>:
  the default replaces \<^verbatim>\<open>undefined\<close> only.\<close>

fun default_to :: "jsval \<Rightarrow> jsval \<Rightarrow> jsval" where
  "default_to d Undefined = d"
| "default_to d v = v"

text \<open>The i-th actual argument of a call; a missing argument is \<^verbatim>\<open>undefined\<close>.\<close>

definition arg :: "jsval list \<Rightarrow> nat \<Rightarrow> jsval" where
  "arg args i = (if i < length args then args ! i else Undefined)"

text \<open>An assignment \<^verbatim>\<open>this.k = v\<close>: the property is overwritten in place or
  appended.\<close>

definition assign :: "string \<Rightarrow> jsval \<Rightarrow> (string \<times> jsval) list \<Rightarrow> (string \<times> jsval) list" where
  "assign k v this = AList.update k v this"

text \<open>The own property names of an object, as \<^verbatim>\<open>Object.keys\<close> lists them.\<close>

fun own_keys :: "jsval \<Rightarrow> string list" where
  "own_keys (Obj kvs) = map fst kvs"
| "own_keys _ = []"

section \<open>Collaborators outside the three modules\<close>

text \<open>
  \<^verbatim>\<open>utils/check.js\<close> is not among the sources. Its two functions used by the
  constructors, \<^verbatim>\<open>check.date\<close> and \<^verbatim>\<open>check.datetime\<close>, are taken as parameters:
  each maps the raw \<^verbatim>\<open>created\<close> value to a timestamp or raises.
\<close>

record check =
  date :: "jsval \<Rightarrow> error + jsval"
  datetime :: "jsval \<Rightarrow> error + jsval"

text \<open>
  Modelled from the spec: the base class \<^verbatim>\<open>Resource\<close> of \<^verbatim>\<open>utils/resource.js\<close>,
  which is not among the sources. The spec gives every log an \<^verbatim>\<open>id\<close> field, an
  opaque identifier read back as it was given, so \<^verbatim>\<open>super(id)\<close> creates the object
  with the single property \<^verbatim>\<open>id\<close>.
\<close>

definition Resource :: "jsval \<Rightarrow> (string \<times> jsval) list" where
  "Resource id' = [(''id'', id')]"

section \<open>The Log classes\<close>

text \<open>
  A class is called with its list of actual arguments, \<^verbatim>\<open>new Log(a0, a1, ...)\<close>,
  and returns the constructed object or the error thrown.

  \<^verbatim>\<open>invoice/log/log.js\<close>, lines 24-30:
  \<^verbatim>\<open>constructor({ created, type, errors, invoice, id })\<close>.
\<close>

definition Invoice_Log :: "check \<Rightarrow> jsval list \<Rightarrow> error + jsval" where
  "Invoice_Log chk args =
     (case destructure (arg args 0) of
        Inl e \<Rightarrow> Inl e
      | Inr r \<Rightarrow>
          (let this = Resource (get_prop r ''id'') in
           case date chk (get_prop r ''created'') of
             Inl e \<Rightarrow> Inl e
           | Inr created \<Rightarrow>
               Inr (Obj (assign ''invoice'' (get_prop r ''invoice'')
                        (assign ''errors'' (get_prop r ''errors'')
                        (assign ''type'' (get_prop r ''type'')
                        (assign ''created'' created this)))))))"

text \<open>\<^verbatim>\<open>corporateCard/log/log.js\<close>, lines 21-26:
  \<^verbatim>\<open>constructor({ id, card, type, created })\<close>.\<close>

definition CorporateCard_Log :: "check \<Rightarrow> jsval list \<Rightarrow> error + jsval" where
  "CorporateCard_Log chk args =
     (case destructure (arg args 0) of
        Inl e \<Rightarrow> Inl e
      | Inr r \<Rightarrow>
          (let this = assign ''type'' (get_prop r ''type'')
                     (assign ''card'' (get_prop r ''card'')
                     (Resource (get_prop r ''id''))) in
           case datetime chk (get_prop r ''created'') of
             Inl e \<Rightarrow> Inl e
           | Inr created \<Rightarrow> Inr (Obj (assign ''created'' created this))))"

text \<open>\<^verbatim>\<open>utilityPayment/log/log.js\<close>, lines 22-28:
  \<^verbatim>\<open>constructor(created, type, errors, payment, id = null)\<close>. The parameters are
  positional, \<^verbatim>\<open>created\<close> is stored as it is, and nothing can throw.\<close>

definition UtilityPayment_Log :: "jsval list \<Rightarrow> error + jsval" where
  "UtilityPayment_Log args =
     (let created = arg args 0; type' = arg args 1; errors = arg args 2;
          payment = arg args 3; id' = default_to Null (arg args 4);
          this = Resource id'
      in Inr (Obj (assign ''payment'' payment
                  (assign ''errors'' errors
                  (assign ''type'' type'
                  (assign ''created'' created this))))))"

section \<open>Resource descriptors\<close>

text \<open>The module-level \<^verbatim>\<open>let resource = {'class': exports.Log, 'name': ...}\<close>.\<close>

record resource =
  resource_class :: "jsval list \<Rightarrow> error + jsval"
  resource_name :: string

definition invoice_resource :: "check \<Rightarrow> resource" where
  "invoice_resource chk = \<lparr>resource_class = Invoice_Log chk, resource_name = ''InvoiceLog''\<rparr>"

definition corporateCard_resource :: "check \<Rightarrow> resource" where
  "corporateCard_resource chk =
     \<lparr>resource_class = CorporateCard_Log chk, resource_name = ''corporateCardLog''\<rparr>"

definition utilityPayment_resource :: resource where
  "utilityPayment_resource =
     \<lparr>resource_class = UtilityPayment_Log, resource_name = ''UtilityPaymentLog''\<rparr>"

section \<open>The operations\<close>

text \<open>
  \<^verbatim>\<open>utils/rest.js\<close> is not among the sources. Each operation receives the one
  function of it that it calls (\<^verbatim>\<open>rest.getId\<close>, \<^verbatim>\<open>rest.getList\<close>,
  \<^verbatim>\<open>rest.getPage\<close>, \<^verbatim>\<open>rest.getPdf\<close>) as its first parameter. The functions
  are \<^verbatim>\<open>async\<close>: an error thrown while the parameters are bound and an error of the
  gateway both reject the returned promise, so both are \<open>Inl\<close>.
\<close>

type_synonym 'r getId = "resource \<Rightarrow> jsval \<Rightarrow> jsval \<Rightarrow> error + 'r"
type_synonym 'r getList = "resource \<Rightarrow> jsval \<Rightarrow> jsval \<Rightarrow> error + 'r"
type_synonym 'r getPage = "resource \<Rightarrow> jsval \<Rightarrow> jsval \<Rightarrow> error + 'r"
type_synonym 'r getPdf = "resource \<Rightarrow> jsval \<Rightarrow> jsval \<Rightarrow> jsval \<Rightarrow> error + 'r"

subsection \<open>invoice/log/log.js\<close>

definition invoice_get :: "'r getId \<Rightarrow> check \<Rightarrow> jsval \<Rightarrow> jsval \<Rightarrow> error + 'r" where
  "invoice_get rest_getId chk id' options =
     (case destructure_default options of
        Inl e \<Rightarrow> Inl e
      | Inr opts \<Rightarrow> rest_getId (invoice_resource chk) id' (get_prop opts ''user''))"

definition invoice_query :: "'r getList \<Rightarrow> check \<Rightarrow> jsval \<Rightarrow> error + 'r" where
  "invoice_query rest_getList chk options =
     (case destructure_default options of
        Inl e \<Rightarrow> Inl e
      | Inr opts \<Rightarrow>
          (let query = Obj [(''limit'', get_prop opts ''limit''),
                            (''after'', get_prop opts ''after''),
                            (''before'', get_prop opts ''before''),
                            (''types'', get_prop opts ''types''),
                            (''invoiceIds'', get_prop opts ''invoiceIds'')]
           in rest_getList (invoice_resource chk) query (get_prop opts ''user'')))"

definition invoice_page :: "'r getPage \<Rightarrow> check \<Rightarrow> jsval \<Rightarrow> error + 'r" where
  "invoice_page rest_getPage chk options =
     (case destructure_default options of
        Inl e \<Rightarrow> Inl e
      | Inr opts \<Rightarrow>
          (let query = Obj [(''cursor'', get_prop opts ''cursor''),
                            (''limit'', get_prop opts ''limit''),
                            (''after'', get_prop opts ''after''),
                            (''before'', get_prop opts ''before''),
                            (''types'', get_prop opts ''types''),
                            (''invoiceIds'', get_prop opts ''invoiceIds'')]
           in rest_getPage (invoice_resource chk) query (get_prop opts ''user'')))"

definition invoice_pdf :: "'r getPdf \<Rightarrow> check \<Rightarrow> jsval \<Rightarrow> jsval \<Rightarrow> error + 'r" where
  "invoice_pdf rest_getPdf chk id' options =
     (case destructure_default options of
        Inl e \<Rightarrow> Inl e
      | Inr opts \<Rightarrow> rest_getPdf (invoice_resource chk) id' (Obj []) (get_prop opts ''user''))"

subsection \<open>corporateCard/log/log.js\<close>

definition corporateCard_get :: "'r getId \<Rightarrow> check \<Rightarrow> jsval \<Rightarrow> jsval \<Rightarrow> error + 'r" where
  "corporateCard_get rest_getId chk id' options =
     (case destructure_default options of
        Inl e \<Rightarrow> Inl e
      | Inr opts \<Rightarrow> rest_getId (corporateCard_resource chk) id' (get_prop opts ''user''))"

definition corporateCard_query :: "'r getList \<Rightarrow> check \<Rightarrow> jsval \<Rightarrow> error + 'r" where
  "corporateCard_query rest_getList chk options =
     (case destructure_default options of
        Inl e \<Rightarrow> Inl e
      | Inr opts \<Rightarrow>
          (let query = Obj [(''ids'', get_prop opts ''ids''),
                            (''limit'', get_prop opts ''limit''),
                            (''after'', get_prop opts ''after''),
                            (''before'', get_prop opts ''before''),
                            (''types'', get_prop opts ''types''),
                            (''cardIds'', get_prop opts ''cardIds'')]
           in rest_getList (corporateCard_resource chk) query (get_prop opts ''user'')))"

definition corporateCard_page :: "'r getPage \<Rightarrow> check \<Rightarrow> jsval \<Rightarrow> error + 'r" where
  "corporateCard_page rest_getPage chk options =
     (case destructure_default options of
        Inl e \<Rightarrow> Inl e
      | Inr opts \<Rightarrow>
          (let query = Obj [(''cursor'', get_prop opts ''cursor''),
                            (''limit'', get_prop opts ''limit''),
                            (''after'', get_prop opts ''after''),
                            (''before'', get_prop opts ''before''),
                            (''types'', get_prop opts ''types''),
                            (''cardIds'', get_prop opts ''cardIds''),
                            (''ids'', get_prop opts ''ids'')]
           in rest_getPage (corporateCard_resource chk) query (get_prop opts ''user'')))"

subsection \<open>utilityPayment/log/log.js\<close>

definition utilityPayment_get :: "'r getId \<Rightarrow> jsval \<Rightarrow> jsval \<Rightarrow> error + 'r" where
  "utilityPayment_get rest_getId id' options =
     (case destructure_default options of
        Inl e \<Rightarrow> Inl e
      | Inr opts \<Rightarrow> rest_getId utilityPayment_resource id' (get_prop opts ''user''))"

text \<open>Here every binding has the default \<^verbatim>\<open>= null\<close>.\<close>

definition utilityPayment_query :: "'r getList \<Rightarrow> jsval \<Rightarrow> error + 'r" where
  "utilityPayment_query rest_getList options =
     (case destructure_default options of
        Inl e \<Rightarrow> Inl e
      | Inr opts \<Rightarrow>
          (let query = Obj [(''limit'', default_to Null (get_prop opts ''limit'')),
                            (''after'', default_to Null (get_prop opts ''after'')),
                            (''before'', default_to Null (get_prop opts ''before'')),
                            (''types'', default_to Null (get_prop opts ''types'')),
                            (''paymentIds'', default_to Null (get_prop opts ''paymentIds''))]
           in rest_getList utilityPayment_resource query
                (default_to Null (get_prop opts ''user''))))"

definition utilityPayment_page :: "'r getPage \<Rightarrow> jsval \<Rightarrow> error + 'r" where
  "utilityPayment_page rest_getPage options =
     (case destructure_default options of
        Inl e \<Rightarrow> Inl e
      | Inr opts \<Rightarrow>
          (let query = Obj [(''cursor'', default_to Null (get_prop opts ''cursor'')),
                            (''limit'', default_to Null (get_prop opts ''limit'')),
                            (''after'', default_to Null (get_prop opts ''after'')),
                            (''before'', default_to Null (get_prop opts ''before'')),
                            (''types'', default_to Null (get_prop opts ''types'')),
                            (''paymentIds'', default_to Null (get_prop opts ''paymentIds''))]
           in rest_getPage utilityPayment_resource query
                (default_to Null (get_prop opts ''user''))))"

section \<open>The gateway\<close>

text \<open>
  Modelled from the spec: the ResourceGateway, that is \<^verbatim>\<open>utils/rest.js\<close> with the
  remote API behind it, which is not among the sources. The spec describes it by its
  boundary, \<^verbatim>\<open>fetchPage(resourceName, filterObject+cursor, authContext) ->
  (list of rawRecord, nextCursor)\<close>, and by its behaviour: a page holds at most 100
  records and a null cursor means that no page follows; a \<^verbatim>\<open>types\<close> filter keeps the
  records whose \<^verbatim>\<open>type\<close> is one of the given strings; an absent or null filter does
  not restrict; \<^verbatim>\<open>limit\<close> is the maximum result count, unbounded if absent; the
  order is the server's and is preserved; AuthError, TransportError and RateLimitError
  are raised by the gateway; \<^verbatim>\<open>query\<close> walks the pages until \<^verbatim>\<open>limit\<close> items
  have been yielded or the collection is exhausted, mapping each raw record to a Log.

  A gateway state is the remote collection of each resource name in the server's order,
  the error (if any) with which a call under a given auth context fails, and the
  meaning of the remaining filters (date bounds and id restrictions), which the spec
  leaves to the server.
\<close>

record gateway =
  collection :: "string \<Rightarrow> jsval list"
  failure :: "jsval \<Rightarrow> error option"
  restricts :: "jsval \<Rightarrow> jsval \<Rightarrow> bool"

text \<open>Modelled from the spec: the \<^verbatim>\<open>types\<close> filter of the absent gateway. A set of
  allowed event types keeps the records whose \<^verbatim>\<open>type\<close> is one of them; an absent or
  null filter keeps every record.\<close>

definition allows_type :: "jsval \<Rightarrow> jsval \<Rightarrow> bool" where
  "allows_type filters raw =
     (case get_prop filters ''types'' of
        Arr ts \<Rightarrow> get_prop raw ''type'' \<in> set ts
      | _ \<Rightarrow> True)"

text \<open>Modelled from the spec: the records of a resource that a filter object selects in
  the absent gateway, in the server's order.\<close>

definition selected :: "gateway \<Rightarrow> string \<Rightarrow> jsval \<Rightarrow> jsval list" where
  "selected g name filters =
     filter (\<lambda>raw. allows_type filters raw \<and> restricts g filters raw) (collection g name)"

text \<open>Modelled from the spec: the maximum result count \<^verbatim>\<open>limit\<close> as the absent
  gateway reads it, unbounded if absent or null (and unless a number).\<close>

fun bound :: "jsval \<Rightarrow> nat option" where
  "bound (Num n) = Some (nat n)"
| "bound _ = None"

text \<open>Modelled from the spec: the cursor of the absent gateway, an opaque string for the
  caller. Here its length is the position reached in the selected records; no cursor
  (null or anything that is not a string) is the beginning.\<close>

fun offset :: "jsval \<Rightarrow> nat" where
  "offset (Str c) = length c"
| "offset _ = 0"

definition cursor_at :: "nat \<Rightarrow> jsval" where
  "cursor_at position = Str (replicate position (CHR ''>''))"

text \<open>Modelled from the spec: the size of a page of the absent gateway, at most 100 and
  at most the result count asked for.\<close>

definition page_size :: "nat option \<Rightarrow> nat" where
  "page_size limit = (case limit of None \<Rightarrow> 100 | Some n \<Rightarrow> min 100 n)"

text \<open>Modelled from the spec: \<^verbatim>\<open>fetchPage(resourceName, filterObject+cursor,
  authContext) -> (list of rawRecord, nextCursor)\<close> of the absent gateway: it fails with
  the gateway's error, or returns the page of selected records that starts at the cursor,
  with the cursor of the page behind it, null if there is none.\<close>

definition fetchPage ::
  "gateway \<Rightarrow> string \<Rightarrow> jsval \<Rightarrow> jsval \<Rightarrow> nat option \<Rightarrow> jsval \<Rightarrow> error + (jsval list \<times> jsval)" where
  "fetchPage g name filters cursor limit user =
     (case failure g user of
        Some e \<Rightarrow> Inl e
      | None \<Rightarrow>
          (let xs = selected g name filters;
               start = offset cursor;
               size' = page_size limit
           in Inr (take size' (drop start xs),
                   if start + size' < length xs then cursor_at (start + size') else Null)))"

text \<open>Modelled from the spec: the absent gateway maps raw records to entities,
  \<^verbatim>\<open>new resource['class'](raw)\<close> for each; the first error thrown by the class ends
  the mapping.\<close>

fun construct :: "resource \<Rightarrow> jsval list \<Rightarrow> error + jsval list" where
  "construct R [] = Inr []"
| "construct R (raw # raws) =
     (case resource_class R [raw] of
        Inl e \<Rightarrow> Inl e
      | Inr entity \<Rightarrow>
          (case construct R raws of
             Inl e \<Rightarrow> Inl e
           | Inr entities \<Rightarrow> Inr (entity # entities)))"

text \<open>Modelled from the spec: \<^verbatim>\<open>rest.getPage\<close>, absent from the sources: a single
  page fetched with the cursor and the limit of the query object, its records mapped to
  entities, returned with the next cursor.\<close>

definition gateway_getPage :: "gateway \<Rightarrow> (jsval list \<times> jsval) getPage" where
  "gateway_getPage g R query user =
     (case fetchPage g (resource_name R) query (get_prop query ''cursor'')
             (bound (get_prop query ''limit'')) user of
        Inl e \<Rightarrow> Inl e
      | Inr (raws, next) \<Rightarrow>
          (case construct R raws of
             Inl e \<Rightarrow> Inl e
           | Inr entities \<Rightarrow> Inr (entities, next)))"

text \<open>
  Modelled from the spec: the sequence returned by \<^verbatim>\<open>rest.getList\<close>, absent from
  the sources, consumed to its end: the entities it yields, in order, and the error that
  ended it, if one did. \<open>emit\<close> yields the entities of one page and then goes on with
  the rest of the sequence; an error of the class ends the sequence.
\<close>

type_synonym sequence = "jsval list \<times> error option"

fun emit :: "resource \<Rightarrow> jsval list \<Rightarrow> sequence \<Rightarrow> sequence" where
  "emit R [] rest = rest"
| "emit R (raw # raws) rest =
     (case resource_class R [raw] of
        Inl e \<Rightarrow> ([], Some e)
      | Inr entity \<Rightarrow> (entity # fst (emit R raws rest), snd (emit R raws rest)))"

text \<open>
  Modelled from the spec: the walk over the pages of the absent gateway, ``until
  \<^verbatim>\<open>limit\<close> items have been yielded or the underlying collection is exhausted''.
  \<open>remaining\<close> is what is left of the limit; each page is asked for with it, and the
  walk stops when nothing is left, when the gateway fails, or at a null cursor.
\<close>

function walk ::
  "gateway \<Rightarrow> resource \<Rightarrow> jsval \<Rightarrow> jsval \<Rightarrow> jsval \<Rightarrow> nat option \<Rightarrow> sequence" where
  "walk g R query user cursor remaining =
     (if remaining = Some 0 then ([], None)
      else
        case fetchPage g (resource_name R) query cursor remaining user of
          Inl e \<Rightarrow> ([], Some e)
        | Inr (raws, next) \<Rightarrow>
            emit R raws
              (if next = Null then ([], None)
               else walk g R query user next
                      (map_option (\<lambda>n. n - length raws) remaining)))"
  by pat_completeness auto
termination
  by (relation "measure (\<lambda>(g, R, query, user, cursor, remaining).
                  length (selected g (resource_name R) query) - offset cursor)")
     (auto simp: fetchPage_def page_size_def cursor_at_def Let_def
           split: option.splits if_splits)

declare walk.simps [simp del]

text \<open>Modelled from the spec: \<^verbatim>\<open>rest.getList\<close>, absent from the sources: the walk
  from the first page, with the limit of the query object.\<close>

definition gateway_getList :: "gateway \<Rightarrow> sequence getList" where
  "gateway_getList g R query user =
     Inr (walk g R query user Null (bound (get_prop query ''limit'')))"

text \<open>The records a walk may still yield: all of them, or the first \<open>n\<close> when \<open>n\<close>
  items are left of the limit.\<close>

fun cap :: "nat option \<Rightarrow> 'a list \<Rightarrow> 'a list" where
  "cap None xs = xs"
| "cap (Some n) xs = take n xs"

section \<open>The constructors, evaluated\<close>

lemma Invoice_Log_value:
  assumes "raw \<noteq> Undefined" and "raw \<noteq> Null"
  shows "Invoice_Log chk (raw # others) =
     (case date chk (get_prop raw ''created'') of
        Inl e \<Rightarrow> Inl e
      | Inr created \<Rightarrow>
          Inr (Obj [(''id'', get_prop raw ''id''), (''created'', created),
                    (''type'', get_prop raw ''type''),
                    (''errors'', get_prop raw ''errors''),
                    (''invoice'', get_prop raw ''invoice'')]))"
  using assms
  by (cases raw)
     (simp_all add: Invoice_Log_def arg_def assign_def Resource_def split: sum.splits)

lemma CorporateCard_Log_value:
  assumes "raw \<noteq> Undefined" and "raw \<noteq> Null"
  shows "CorporateCard_Log chk (raw # others) =
     (case datetime chk (get_prop raw ''created'') of
        Inl e \<Rightarrow> Inl e
      | Inr created \<Rightarrow>
          Inr (Obj [(''id'', get_prop raw ''id''), (''card'', get_prop raw ''card''),
                    (''type'', get_prop raw ''type''), (''created'', created)]))"
  using assms
  by (cases raw)
     (simp_all add: CorporateCard_Log_def arg_def assign_def Resource_def split: sum.splits)

lemma Log_without_record:
  "Invoice_Log chk [] = Inl TypeError"
  "Invoice_Log chk (Undefined # others) = Inl TypeError"
  "Invoice_Log chk (Null # others) = Inl TypeError"
  "CorporateCard_Log chk [] = Inl TypeError"
  "CorporateCard_Log chk (Undefined # others) = Inl TypeError"
  "CorporateCard_Log chk (Null # others) = Inl TypeError"
  by (simp_all add: Invoice_Log_def CorporateCard_Log_def arg_def)

lemma UtilityPayment_Log_value:
  "UtilityPayment_Log args =
     Inr (Obj [(''id'', default_to Null (arg args 4)), (''created'', arg args 0),
               (''type'', arg args 1), (''errors'', arg args 2),
               (''payment'', arg args 3)])"
  by (simp add: UtilityPayment_Log_def assign_def Resource_def)

text \<open>
  The two classes that validate: the constructor raises exactly what \<^verbatim>\<open>check.date\<close>
  (or \<^verbatim>\<open>check.datetime\<close>) raises on the \<^verbatim>\<open>created\<close> of the record, and
  otherwise stores its result.
\<close>

lemma Invoice_Log_raises_iff:
  assumes "raw \<noteq> Undefined" and "raw \<noteq> Null"
  shows "Invoice_Log chk [raw] = Inl e \<longleftrightarrow> date chk (get_prop raw ''created'') = Inl e"
  by (simp add: Invoice_Log_value [OF assms] split: sum.splits)

lemma CorporateCard_Log_raises_iff:
  assumes "raw \<noteq> Undefined" and "raw \<noteq> Null"
  shows "CorporateCard_Log chk [raw] = Inl e \<longleftrightarrow>
         datetime chk (get_prop raw ''created'') = Inl e"
  by (simp add: CorporateCard_Log_value [OF assms] split: sum.splits)

lemma Invoice_Log_roundtrip:
  assumes "Invoice_Log chk [raw] = Inr obj"
  shows "date chk (get_prop raw ''created'') = Inr (get_prop obj ''created'')
       \<and> get_prop obj ''id'' = get_prop raw ''id''
       \<and> get_prop obj ''type'' = get_prop raw ''type''
       \<and> get_prop obj ''errors'' = get_prop raw ''errors''
       \<and> get_prop obj ''invoice'' = get_prop raw ''invoice''"
proof -
  have "raw \<noteq> Undefined" "raw \<noteq> Null"
    using assms by (auto simp: Log_without_record)
  from Invoice_Log_value [OF this, of chk "[]"] assms show ?thesis
    by (auto split: sum.splits)
qed

lemma CorporateCard_Log_roundtrip:
  assumes "CorporateCard_Log chk [raw] = Inr obj"
  shows "datetime chk (get_prop raw ''created'') = Inr (get_prop obj ''created'')
       \<and> get_prop obj ''id'' = get_prop raw ''id''
       \<and> get_prop obj ''card'' = get_prop raw ''card''
       \<and> get_prop obj ''type'' = get_prop raw ''type''"
proof -
  have "raw \<noteq> Undefined" "raw \<noteq> Null"
    using assms by (auto simp: Log_without_record)
  from CorporateCard_Log_value [OF this, of chk "[]"] assms show ?thesis
    by (auto split: sum.splits)
qed

section \<open>Claims about the constructors\<close>

text \<open>
  C1. The claim: for every resource kind, constructing a Log parses \<^verbatim>\<open>created\<close>
  into a timestamp and raises ValidationError exactly when the string cannot be parsed.
  The UtilityPayment constructor does neither: for every argument list it returns an
  object and never raises, and a \<^verbatim>\<open>created\<close> that is no date at all,
  \<^verbatim>\<open>new Log('not-a-date', 'success', [], {id: '5656565656565656'}, '1')\<close>, is
  stored as it is. (\<open>Invoice_Log_raises_iff\<close> and \<open>CorporateCard_Log_raises_iff\<close>
  above are what the two sibling classes do.)
\<close>

theorem UtilityPayment_Log_never_validates:
  "(\<forall>args e. UtilityPayment_Log args \<noteq> Inl e)
   \<and> UtilityPayment_Log
        [Str ''not-a-date'', Str ''success'', Arr [],
         Obj [(''id'', Str ''5656565656565656'')], Str ''1'']
     = Inr (Obj [(''id'', Str ''1''), (''created'', Str ''not-a-date''),
                 (''type'', Str ''success''), (''errors'', Arr []),
                 (''payment'', Obj [(''id'', Str ''5656565656565656'')])])"
  by (simp add: UtilityPayment_Log_value arg_def)

text \<open>
  C2. The claim: for every valid raw record and each of the three kinds, the fields read
  back are the input values, except \<^verbatim>\<open>created\<close>, which is the parsed value of the
  input string. For UtilityPayment the \<^verbatim>\<open>created\<close> read back is the first
  argument itself, whatever it is: for the valid datetime string
  \<^verbatim>\<open>'2020-03-10 10:30:00.000'\<close> it is that string, not a timestamp made from it.
  Called with a raw record as its single argument, the way the two other classes are
  called, the constructor keeps the whole record as \<^verbatim>\<open>created\<close> and reads back
  \<^verbatim>\<open>undefined\<close> for \<^verbatim>\<open>type\<close>. (\<open>Invoice_Log_roundtrip\<close> above is the
  round trip of a class that parses.)
\<close>

theorem UtilityPayment_Log_created_verbatim:
  "(\<exists>obj. UtilityPayment_Log args = Inr obj \<and> get_prop obj ''created'' = arg args 0)
   \<and> (\<exists>obj. UtilityPayment_Log
               [Str ''2020-03-10 10:30:00.000'', Str ''success'', Arr [], Obj [], Str ''1'']
             = Inr obj
           \<and> get_prop obj ''created'' = Str ''2020-03-10 10:30:00.000'')
   \<and> (\<exists>obj. UtilityPayment_Log
               [Obj [(''id'', Str ''1''), (''type'', Str ''success''),
                     (''created'', Str ''2020-03-10 10:30:00.000'')]]
             = Inr obj
           \<and> get_prop obj ''created''
               = Obj [(''id'', Str ''1''), (''type'', Str ''success''),
                      (''created'', Str ''2020-03-10 10:30:00.000'')]
           \<and> get_prop obj ''type'' = Undefined
           \<and> get_prop obj ''id'' = Null)"
  by (simp add: UtilityPayment_Log_value arg_def)

text \<open>
  C8. The UtilityPayment constructor binds its parameters by position,
  \<^verbatim>\<open>(created, type, errors, payment, id)\<close>: called with four arguments it builds
  the object with \<^verbatim>\<open>id\<close> null, and with five the given id (null again if the
  fifth is \<^verbatim>\<open>undefined\<close>). The two other constructors read the same names as
  properties of their first argument; given an object as its only argument, the
  UtilityPayment constructor takes the object itself for \<^verbatim>\<open>created\<close>.
\<close>

theorem UtilityPayment_Log_positional:
  "UtilityPayment_Log [created, type', errors, payment]
     = Inr (Obj [(''id'', Null), (''created'', created), (''type'', type'),
                 (''errors'', errors), (''payment'', payment)])
   \<and> UtilityPayment_Log [created, type', errors, payment, id']
     = Inr (Obj [(''id'', default_to Null id'), (''created'', created), (''type'', type'),
                 (''errors'', errors), (''payment'', payment)])
   \<and> UtilityPayment_Log [Obj kvs]
     = Inr (Obj [(''id'', Null), (''created'', Obj kvs), (''type'', Undefined),
                 (''errors'', Undefined), (''payment'', Undefined)])
   \<and> Invoice_Log chk [Obj kvs]
     = (case date chk (get_prop (Obj kvs) ''created'') of
          Inl e \<Rightarrow> Inl e
        | Inr c \<Rightarrow>
            Inr (Obj [(''id'', get_prop (Obj kvs) ''id''), (''created'', c),
                      (''type'', get_prop (Obj kvs) ''type''),
                      (''errors'', get_prop (Obj kvs) ''errors''),
                      (''invoice'', get_prop (Obj kvs) ''invoice'')]))
   \<and> CorporateCard_Log chk [Obj kvs]
     = (case datetime chk (get_prop (Obj kvs) ''created'') of
          Inl e \<Rightarrow> Inl e
        | Inr c \<Rightarrow>
            Inr (Obj [(''id'', get_prop (Obj kvs) ''id''),
                      (''card'', get_prop (Obj kvs) ''card''),
                      (''type'', get_prop (Obj kvs) ''type''), (''created'', c)]))"
  by (simp add: UtilityPayment_Log_value Invoice_Log_value CorporateCard_Log_value arg_def)

text \<open>
  C9. A constructed corporateCard Log has exactly the properties \<^verbatim>\<open>id\<close>,
  \<^verbatim>\<open>card\<close>, \<^verbatim>\<open>type\<close> and \<^verbatim>\<open>created\<close>, the first three as the record has
  them and the last as \<^verbatim>\<open>check.datetime\<close> returned it. Reading \<^verbatim>\<open>errors\<close>, or any
  other name, from the object yields \<^verbatim>\<open>undefined\<close>, whatever the record held.
\<close>

theorem CorporateCard_Log_fields:
  assumes "CorporateCard_Log chk args = Inr obj"
  shows "own_keys obj = [''id'', ''card'', ''type'', ''created'']
       \<and> get_prop obj ''errors'' = Undefined
       \<and> (\<forall>k. k \<notin> set [''id'', ''card'', ''type'', ''created''] \<longrightarrow>
               get_prop obj k = Undefined)
       \<and> get_prop obj ''id'' = get_prop (arg args 0) ''id''
       \<and> get_prop obj ''card'' = get_prop (arg args 0) ''card''
       \<and> get_prop obj ''type'' = get_prop (arg args 0) ''type''
       \<and> datetime chk (get_prop (arg args 0) ''created'') = Inr (get_prop obj ''created'')"
proof -
  obtain raw where raw: "destructure (arg args 0) = Inr raw"
    using assms by (auto simp: CorporateCard_Log_def split: sum.splits)
  then have same: "raw = arg args 0"
    by (cases "arg args 0") simp_all
  obtain created where created: "datetime chk (get_prop raw ''created'') = Inr created"
    using assms raw by (auto simp: CorporateCard_Log_def Let_def split: sum.splits)
  have obj: "obj = Obj [(''id'', get_prop raw ''id''), (''card'', get_prop raw ''card''),
                        (''type'', get_prop raw ''type''), (''created'', created)]"
    using assms raw created
    by (simp add: CorporateCard_Log_def assign_def Resource_def)
  show ?thesis
    using created by (simp add: obj same)
qed

theorem CorporateCard_Log_fields_witness:
  "CorporateCard_Log \<lparr>date = Inr, datetime = (\<lambda>v. Inr (Arr [v]))\<rparr>
     [Obj [(''id'', Str ''1''), (''card'', Obj [(''id'', Str ''9'')]),
           (''type'', Str ''blocked''), (''errors'', Arr [Str ''lost'']),
           (''created'', Str ''2020-03-10 10:30:00.000'')]]
   = Inr (Obj [(''id'', Str ''1''), (''card'', Obj [(''id'', Str ''9'')]),
               (''type'', Str ''blocked''),
               (''created'', Arr [Str ''2020-03-10 10:30:00.000''])])
   \<and> own_keys (Obj [(''id'', Str ''1''), (''card'', Obj [(''id'', Str ''9'')]),
                    (''type'', Str ''blocked''),
                    (''created'', Arr [Str ''2020-03-10 10:30:00.000''])])
     = [''id'', ''card'', ''type'', ''created'']
   \<and> get_prop (Obj [(''id'', Str ''1''), (''card'', Obj [(''id'', Str ''9'')]),
                    (''type'', Str ''blocked''),
                    (''created'', Arr [Str ''2020-03-10 10:30:00.000''])]) ''errors''
     = Undefined"
proof -
  have built:
    "CorporateCard_Log \<lparr>date = Inr, datetime = (\<lambda>v. Inr (Arr [v]))\<rparr>
       [Obj [(''id'', Str ''1''), (''card'', Obj [(''id'', Str ''9'')]),
             (''type'', Str ''blocked''), (''errors'', Arr [Str ''lost'']),
             (''created'', Str ''2020-03-10 10:30:00.000'')]]
     = Inr (Obj [(''id'', Str ''1''), (''card'', Obj [(''id'', Str ''9'')]),
                 (''type'', Str ''blocked''),
                 (''created'', Arr [Str ''2020-03-10 10:30:00.000''])])"
    by (simp add: CorporateCard_Log_value)
  from CorporateCard_Log_fields [OF built] built show ?thesis
    by simp
qed

section \<open>Claims about the operations\<close>

text \<open>
  C3. \<^verbatim>\<open>get(id, options)\<close> of each module is the call
  \<^verbatim>\<open>rest.getId(resource, id, user)\<close> and nothing else: whatever the gateway
  answers for the module's descriptor, the id and the \<^verbatim>\<open>user\<close> of the options is
  the answer of \<^verbatim>\<open>get\<close>. So an entity the gateway built is returned, and an error the
  gateway raised (NotFound for an id that does not exist, AuthError, TransportError) is
  raised unchanged: \<^verbatim>\<open>get\<close> has no value of its own to return instead. The options
  are an object or absent; \<^verbatim>\<open>null\<close> in their place cannot be destructured.
\<close>

theorem get_is_gateway_getId:
  fixes rest_getId :: "'r getId"
  assumes "options \<noteq> Null"
  shows "invoice_get rest_getId chk id' options
           = rest_getId (invoice_resource chk) id' (get_prop options ''user'')
       \<and> corporateCard_get rest_getId chk id' options
           = rest_getId (corporateCard_resource chk) id' (get_prop options ''user'')
       \<and> utilityPayment_get rest_getId id' options
           = rest_getId utilityPayment_resource id' (get_prop options ''user'')
       \<and> (\<forall>e. rest_getId (invoice_resource chk) id' (get_prop options ''user'') = Inl e
              \<longrightarrow> invoice_get rest_getId chk id' options = Inl e)
       \<and> (\<forall>e. rest_getId (corporateCard_resource chk) id' (get_prop options ''user'') = Inl e
              \<longrightarrow> corporateCard_get rest_getId chk id' options = Inl e)
       \<and> (\<forall>e. rest_getId utilityPayment_resource id' (get_prop options ''user'') = Inl e
              \<longrightarrow> utilityPayment_get rest_getId id' options = Inl e)"
  using assms
  by (cases options)
     (simp_all add: invoice_get_def corporateCard_get_def utilityPayment_get_def)

text \<open>A gateway that knows one id and answers NotFound for every other one.\<close>

theorem get_is_gateway_getId_witness:
  "Obj [(''user'', Str ''project'')] \<noteq> Null
   \<and> invoice_get
        (\<lambda>R i u. if i = Str ''5656565656565656'' then Inr (Obj [(''id'', i)]) else Inl NotFound)
        \<lparr>date = Inr, datetime = Inr\<rparr> (Str ''nonexistent-id'')
        (Obj [(''user'', Str ''project'')])
     = Inl NotFound
   \<and> corporateCard_get
        (\<lambda>R i u. if i = Str ''5656565656565656'' then Inr (Obj [(''id'', i)]) else Inl NotFound)
        \<lparr>date = Inr, datetime = Inr\<rparr> (Str ''nonexistent-id'')
        (Obj [(''user'', Str ''project'')])
     = Inl NotFound
   \<and> utilityPayment_get
        (\<lambda>R i u. if i = Str ''5656565656565656'' then Inr (Obj [(''id'', i)]) else Inl NotFound)
        (Str ''nonexistent-id'') (Obj [(''user'', Str ''project'')])
     = Inl NotFound"
proof -
  have given: "Obj [(''user'', Str ''project'')] \<noteq> Null"
    by simp
  from get_is_gateway_getId [OF given,
      of "\<lambda>R i u. if i = Str ''5656565656565656'' then Inr (Obj [(''id'', i)]) else Inl NotFound"
         "\<lparr>date = Inr, datetime = Inr\<rparr>" "Str ''nonexistent-id''"]
  show ?thesis
    by simp
qed

text \<open>
  C7. The claim: for every filter field, omitting it and passing \<^verbatim>\<open>null\<close> give the
  same filter object. In the invoice module (and in the corporateCard one) the bindings
  have no default, so \<^verbatim>\<open>query({})\<close> hands the gateway a filter object whose
  \<^verbatim>\<open>limit\<close> is \<^verbatim>\<open>undefined\<close> and \<^verbatim>\<open>query({limit: null})\<close> one whose
  \<^verbatim>\<open>limit\<close> is \<^verbatim>\<open>null\<close>; the same holds for \<^verbatim>\<open>page\<close>. The utilityPayment
  module, with its \<^verbatim>\<open>= null\<close> defaults, hands over the same object in both cases.
  The gateway here returns the filter object it was given.
\<close>

theorem omitted_filter_is_not_null_filter:
  "invoice_query (\<lambda>R q u. Inr q) chk (Obj [])
     = Inr (Obj [(''limit'', Undefined), (''after'', Undefined), (''before'', Undefined),
                 (''types'', Undefined), (''invoiceIds'', Undefined)])
   \<and> invoice_query (\<lambda>R q u. Inr q) chk (Obj [(''limit'', Null)])
     = Inr (Obj [(''limit'', Null), (''after'', Undefined), (''before'', Undefined),
                 (''types'', Undefined), (''invoiceIds'', Undefined)])
   \<and> invoice_query (\<lambda>R q u. Inr q) chk (Obj [])
     \<noteq> invoice_query (\<lambda>R q u. Inr q) chk (Obj [(''limit'', Null)])
   \<and> invoice_page (\<lambda>R q u. Inr q) chk (Obj [])
     \<noteq> invoice_page (\<lambda>R q u. Inr q) chk (Obj [(''limit'', Null)])
   \<and> corporateCard_query (\<lambda>R q u. Inr q) chk (Obj [])
     \<noteq> corporateCard_query (\<lambda>R q u. Inr q) chk (Obj [(''limit'', Null)])
   \<and> corporateCard_page (\<lambda>R q u. Inr q) chk (Obj [])
     \<noteq> corporateCard_page (\<lambda>R q u. Inr q) chk (Obj [(''limit'', Null)])
   \<and> utilityPayment_query (\<lambda>R q u. Inr q) (Obj [])
     = utilityPayment_query (\<lambda>R q u. Inr q) (Obj [(''limit'', Null)])
   \<and> utilityPayment_page (\<lambda>R q u. Inr q) (Obj [])
     = utilityPayment_page (\<lambda>R q u. Inr q) (Obj [(''limit'', Null)])"
  by (simp add: invoice_query_def invoice_page_def corporateCard_query_def
        corporateCard_page_def utilityPayment_query_def utilityPayment_page_def)

text \<open>
  C10. Every operation of a module hands the gateway that module's descriptor: the
  resource it passes is the module-level \<^verbatim>\<open>resource\<close>, whose name is
  \<^verbatim>\<open>'InvoiceLog'\<close>, \<^verbatim>\<open>'corporateCardLog'\<close> or \<^verbatim>\<open>'UtilityPaymentLog'\<close> and
  whose class is the module's \<^verbatim>\<open>Log\<close>. The descriptors are constants of the modules
  (no operation assigns to \<^verbatim>\<open>resource\<close> or to a property of it), and the three
  names differ, so no call of one kind reaches the gateway under another kind's name.
\<close>

theorem operations_pass_own_resource:
  fixes rest_getId :: "'a getId" and rest_getList :: "'b getList"
    and rest_getPage :: "'c getPage" and rest_getPdf :: "'d getPdf"
  assumes "options \<noteq> Null"
  shows "(\<exists>u. invoice_get rest_getId chk id' options
               = rest_getId (invoice_resource chk) id' u)
       \<and> (\<exists>q u. invoice_query rest_getList chk options
               = rest_getList (invoice_resource chk) q u)
       \<and> (\<exists>q u. invoice_page rest_getPage chk options
               = rest_getPage (invoice_resource chk) q u)
       \<and> (\<exists>q u. invoice_pdf rest_getPdf chk id' options
               = rest_getPdf (invoice_resource chk) id' q u)
       \<and> (\<exists>u. corporateCard_get rest_getId chk id' options
               = rest_getId (corporateCard_resource chk) id' u)
       \<and> (\<exists>q u. corporateCard_query rest_getList chk options
               = rest_getList (corporateCard_resource chk) q u)
       \<and> (\<exists>q u. corporateCard_page rest_getPage chk options
               = rest_getPage (corporateCard_resource chk) q u)
       \<and> (\<exists>u. utilityPayment_get rest_getId id' options
               = rest_getId utilityPayment_resource id' u)
       \<and> (\<exists>q u. utilityPayment_query rest_getList options
               = rest_getList utilityPayment_resource q u)
       \<and> (\<exists>q u. utilityPayment_page rest_getPage options
               = rest_getPage utilityPayment_resource q u)
       \<and> resource_name (invoice_resource chk) = ''InvoiceLog''
       \<and> resource_class (invoice_resource chk) = Invoice_Log chk
       \<and> resource_name (corporateCard_resource chk) = ''corporateCardLog''
       \<and> resource_class (corporateCard_resource chk) = CorporateCard_Log chk
       \<and> resource_name utilityPayment_resource = ''UtilityPaymentLog''
       \<and> resource_class utilityPayment_resource = UtilityPayment_Log
       \<and> distinct [resource_name (invoice_resource chk),
                    resource_name (corporateCard_resource chk),
                    resource_name utilityPayment_resource]"
proof -
  obtain opts where opts: "destructure_default options = Inr opts"
    using assms by (cases options) simp_all
  have "\<exists>u. invoice_get rest_getId chk id' options
               = rest_getId (invoice_resource chk) id' u"
    and "\<exists>q u. invoice_query rest_getList chk options
               = rest_getList (invoice_resource chk) q u"
    and "\<exists>q u. invoice_page rest_getPage chk options
               = rest_getPage (invoice_resource chk) q u"
    and "\<exists>q u. invoice_pdf rest_getPdf chk id' options
               = rest_getPdf (invoice_resource chk) id' q u"
    by (simp_all add: invoice_get_def invoice_query_def invoice_page_def invoice_pdf_def
          opts Let_def) blast+
  moreover
  have "\<exists>u. corporateCard_get rest_getId chk id' options
               = rest_getId (corporateCard_resource chk) id' u"
    and "\<exists>q u. corporateCard_query rest_getList chk options
               = rest_getList (corporateCard_resource chk) q u"
    and "\<exists>q u. corporateCard_page rest_getPage chk options
               = rest_getPage (corporateCard_resource chk) q u"
    by (simp_all add: corporateCard_get_def corporateCard_query_def corporateCard_page_def
          opts Let_def) blast+
  moreover
  have "\<exists>u. utilityPayment_get rest_getId id' options
               = rest_getId utilityPayment_resource id' u"
    and "\<exists>q u. utilityPayment_query rest_getList options
               = rest_getList utilityPayment_resource q u"
    and "\<exists>q u. utilityPayment_page rest_getPage options
               = rest_getPage utilityPayment_resource q u"
    by (simp_all add: utilityPayment_get_def utilityPayment_query_def
          utilityPayment_page_def opts Let_def) blast+
  ultimately show ?thesis
    by (simp add: invoice_resource_def corporateCard_resource_def
          utilityPayment_resource_def)
qed

text \<open>Gateways that answer with the name of the resource they were called with.\<close>

theorem operations_pass_own_resource_witness:
  "Obj [(''limit'', Num 5)] \<noteq> Null
   \<and> invoice_get (\<lambda>R i u. Inr (resource_name R)) \<lparr>date = Inr, datetime = Inr\<rparr>
        (Str ''1'') (Obj [(''limit'', Num 5)]) = Inr ''InvoiceLog''
   \<and> invoice_query (\<lambda>R q u. Inr (resource_name R)) \<lparr>date = Inr, datetime = Inr\<rparr>
        (Obj [(''limit'', Num 5)]) = Inr ''InvoiceLog''
   \<and> invoice_page (\<lambda>R q u. Inr (resource_name R)) \<lparr>date = Inr, datetime = Inr\<rparr>
        (Obj [(''limit'', Num 5)]) = Inr ''InvoiceLog''
   \<and> invoice_pdf (\<lambda>R i q u. Inr (resource_name R)) \<lparr>date = Inr, datetime = Inr\<rparr>
        (Str ''1'') (Obj [(''limit'', Num 5)]) = Inr ''InvoiceLog''
   \<and> corporateCard_get (\<lambda>R i u. Inr (resource_name R)) \<lparr>date = Inr, datetime = Inr\<rparr>
        (Str ''1'') (Obj [(''limit'', Num 5)]) = Inr ''corporateCardLog''
   \<and> corporateCard_query (\<lambda>R q u. Inr (resource_name R)) \<lparr>date = Inr, datetime = Inr\<rparr>
        (Obj [(''limit'', Num 5)]) = Inr ''corporateCardLog''
   \<and> corporateCard_page (\<lambda>R q u. Inr (resource_name R)) \<lparr>date = Inr, datetime = Inr\<rparr>
        (Obj [(''limit'', Num 5)]) = Inr ''corporateCardLog''
   \<and> utilityPayment_get (\<lambda>R i u. Inr (resource_name R))
        (Str ''1'') (Obj [(''limit'', Num 5)]) = Inr ''UtilityPaymentLog''
   \<and> utilityPayment_query (\<lambda>R q u. Inr (resource_name R))
        (Obj [(''limit'', Num 5)]) = Inr ''UtilityPaymentLog''
   \<and> utilityPayment_page (\<lambda>R q u. Inr (resource_name R))
        (Obj [(''limit'', Num 5)]) = Inr ''UtilityPaymentLog''"
proof -
  have given: "Obj [(''limit'', Num 5)] \<noteq> Null"
    by simp
  from operations_pass_own_resource [OF given,
      of "\<lambda>R i u. Inr (resource_name R)" "\<lparr>date = Inr, datetime = Inr\<rparr>" "Str ''1''"
         "\<lambda>R q u. Inr (resource_name R)" "\<lambda>R q u. Inr (resource_name R)"
         "\<lambda>R i q u. Inr (resource_name R)"]
  show ?thesis
    by simp
qed

section \<open>The gateway: pages and the walk over them\<close>

lemma emit_length: "length (fst (emit R raws rest)) \<le> length raws + length (fst rest)"
  by (induction raws) (auto split: sum.splits)

lemma emit_append: "emit R (xs @ ys) rest = emit R xs (emit R ys rest)"
  by (induction xs) (auto split: sum.splits)

lemma emit_origin:
  "entity \<in> set (fst (emit R raws rest)) \<Longrightarrow>
     (\<exists>raw \<in> set raws. resource_class R [raw] = Inr entity) \<or> entity \<in> set (fst rest)"
  by (induction raws) (auto split: sum.splits)

lemma emit_complete:
  "snd (emit R raws ([], None)) = None \<Longrightarrow> length (fst (emit R raws ([], None))) = length raws"
  by (induction raws) (auto split: sum.splits)

lemma construct_length: "construct R raws = Inr entities \<Longrightarrow> length entities = length raws"
  by (induction raws arbitrary: entities) (auto split: sum.splits)

lemma cursor_at_simps [simp]:
  "cursor_at position \<noteq> Null" "offset (cursor_at position) = position"
  by (simp_all add: cursor_at_def)

lemma page_size_le: "page_size limit \<le> 100" "page_size (Some n) \<le> n"
  by (simp_all add: page_size_def split: option.splits)

lemma fetchPage_value:
  "failure g user = None \<Longrightarrow>
   fetchPage g name filters cursor limit user =
     Inr (take (page_size limit) (drop (offset cursor) (selected g name filters)),
          if offset cursor + page_size limit < length (selected g name filters)
          then cursor_at (offset cursor + page_size limit) else Null)"
  by (simp add: fetchPage_def Let_def)

lemma fetchPage_failure:
  "failure g user = Some e \<Longrightarrow> fetchPage g name filters cursor limit user = Inl e"
  by (simp add: fetchPage_def)

lemma fetchPage_length:
  "fetchPage g name filters cursor limit user = Inr (raws, next) \<Longrightarrow>
     length raws \<le> page_size limit"
  by (auto simp: fetchPage_def Let_def split: option.splits)

lemma fetchPage_subset:
  "fetchPage g name filters cursor limit user = Inr (raws, next) \<Longrightarrow>
     set raws \<subseteq> set (selected g name filters)"
  by (auto simp: fetchPage_def Let_def split: option.splits dest: in_set_takeD in_set_dropD)

text \<open>A page's cursor is null exactly when no selected record lies behind the page.\<close>

lemma fetchPage_last:
  assumes "fetchPage g name filters cursor limit user = Inr (raws, next)"
  shows "next = Null \<longleftrightarrow>
         drop (offset cursor + length raws) (selected g name filters) = []"
proof -
  let ?xs = "selected g name filters"
  from assms have ok: "failure g user = None"
    by (auto simp: fetchPage_def split: option.splits)
  from assms have raws: "raws = take (page_size limit) (drop (offset cursor) ?xs)"
    and "next": "next = (if offset cursor + page_size limit < length ?xs
                       then cursor_at (offset cursor + page_size limit) else Null)"
    unfolding fetchPage_value [OF ok] by simp_all
  show ?thesis
  proof (cases "offset cursor + page_size limit < length ?xs")
    case True
    then have "length raws = page_size limit"
      by (simp add: raws)
    with True "next" show ?thesis by simp
  next
    case False
    then have "length ?xs \<le> offset cursor + length raws"
      by (simp add: raws min_def)
    with False "next" show ?thesis by simp
  qed
qed

text \<open>However many pages it takes, a walk with \<open>n\<close> items left yields at most \<open>n\<close>.\<close>

lemma walk_length:
  "remaining = Some n \<Longrightarrow> length (fst (walk g R query user cursor remaining)) \<le> n"
proof (induction g R query user cursor remaining arbitrary: n rule: walk.induct)
  case (1 g R query user cursor remaining)
  show ?case
  proof (cases "n = 0")
    case True
    with "1.prems" show ?thesis by (subst walk.simps) simp
  next
    case False
    show ?thesis
    proof (cases "fetchPage g (resource_name R) query cursor remaining user")
      case (Inl e)
      with False "1.prems" show ?thesis by (subst walk.simps) simp
    next
      case (Inr page)
      obtain raws "next" where page: "page = (raws, next)" by (cases page)
      have len: "length raws \<le> n"
        using fetchPage_length [of g "resource_name R" query cursor remaining user raws "next"]
          Inr page "1.prems" page_size_le(2) [of n] by simp
      show ?thesis
      proof (cases "next = Null")
        case True
        with False "1.prems" Inr page len show ?thesis
          using emit_length [of R raws "([], None)"] by (subst walk.simps) simp
      next
        case more: False
        have "length (fst (walk g R query user next
                (map_option (\<lambda>n. n - length raws) remaining))) \<le> n - length raws"
          using "1.IH" [OF _ Inr page [symmetric] more, of "n - length raws"] False "1.prems"
          by simp
        then show ?thesis
          using emit_length [of R raws
              "walk g R query user next (map_option (\<lambda>n. n - length raws) remaining)"]
            False "1.prems" Inr page len more
          by (subst walk.simps) simp
      qed
    qed
  qed
qed

text \<open>Every entity of a walk was built by the class from a selected record.\<close>

lemma walk_origin:
  "entity \<in> set (fst (walk g R query user cursor remaining)) \<Longrightarrow>
     \<exists>raw \<in> set (selected g (resource_name R) query). resource_class R [raw] = Inr entity"
proof (induction g R query user cursor remaining rule: walk.induct)
  case (1 g R query user cursor remaining)
  from "1.prems" have going: "remaining \<noteq> Some 0"
    by (subst (asm) walk.simps) (auto split: if_splits)
  from "1.prems" going obtain raws "next" where
    page: "fetchPage g (resource_name R) query cursor remaining user = Inr (raws, next)"
    by (subst (asm) walk.simps) (auto split: sum.splits)
  let ?rest = "if next = Null then ([], None)
               else walk g R query user next (map_option (\<lambda>n. n - length raws) remaining)"
  from "1.prems" going page have "entity \<in> set (fst (emit R raws ?rest))"
    by (subst (asm) walk.simps) simp
  from emit_origin [OF this] show ?case
  proof
    assume "\<exists>raw \<in> set raws. resource_class R [raw] = Inr entity"
    with fetchPage_subset [OF page] show ?thesis by blast
  next
    assume later: "entity \<in> set (fst ?rest)"
    then have more: "next \<noteq> Null" by (auto split: if_splits)
    with later have "entity \<in> set (fst (walk g R query user next
                        (map_option (\<lambda>n. n - length raws) remaining)))"
      by simp
    from "1.IH" [OF going page refl more this] show ?thesis .
  qed
qed

text \<open>
  What a walk yields when the gateway does not fail: the selected records from the
  cursor on, cut after the items left if there is a limit, each mapped by the class.
\<close>

lemma cap_page:
  assumes "remaining \<noteq> Some 0"
  shows "take (page_size remaining) ys
           @ cap (map_option (\<lambda>n. n - page_size remaining) remaining)
               (drop (page_size remaining) ys)
         = cap remaining ys"
proof (cases remaining)
  case None
  then show ?thesis by simp
next
  case (Some n)
  have "take (min 100 n) ys @ take (n - min 100 n) (drop (min 100 n) ys)
          = take (min 100 n + (n - min 100 n)) ys"
    by (simp only: take_add)
  then show ?thesis
    using Some by (simp add: page_size_def)
qed

lemma cap_short:
  assumes "length ys \<le> page_size remaining"
  shows "cap remaining ys = ys"
  using assms by (cases remaining) (simp_all add: page_size_def)

lemma walk_value:
  "failure g user = None \<Longrightarrow>
   walk g R query user cursor remaining =
     emit R (cap remaining (drop (offset cursor) (selected g (resource_name R) query)))
       ([], None)"
proof (induction g R query user cursor remaining rule: walk.induct)
  case (1 g R query user cursor remaining)
  let ?xs = "selected g (resource_name R) query"
  let ?ys = "drop (offset cursor) ?xs"
  let ?size = "page_size remaining"
  show ?case
  proof (cases "remaining = Some 0")
    case True
    then show ?thesis by (subst walk.simps) simp
  next
    case going: False
    note page = fetchPage_value [OF "1.prems", of "resource_name R" query cursor remaining]
    show ?thesis
    proof (cases "offset cursor + ?size < length ?xs")
      case False
      then have "length ?ys \<le> ?size" by simp
      then have "take ?size ?ys = cap remaining ?ys"
        by (simp add: cap_short)
      with going False page show ?thesis
        by (subst walk.simps) simp
    next
      case True
      let ?next = "cursor_at (offset cursor + ?size)"
      let ?left = "map_option (\<lambda>n. n - length (take ?size ?ys)) remaining"
      from True have full: "length (take ?size ?ys) = ?size" by simp
      have "walk g R query user ?next ?left
              = emit R (cap ?left (drop (offset ?next) ?xs)) ([], None)"
        using "1.IH" [OF going _ refl _ "1.prems", of "take ?size ?ys" ?next] page True
        by simp
      also have "drop (offset ?next) ?xs = drop ?size ?ys"
        by (simp add: add.commute)
      finally have later: "walk g R query user ?next ?left
              = emit R (cap ?left (drop ?size ?ys)) ([], None)" .
      have "walk g R query user cursor remaining
              = emit R (take ?size ?ys) (walk g R query user ?next ?left)"
        using going page True by (subst walk.simps) simp
      also have "\<dots> = emit R (take ?size ?ys @ cap ?left (drop ?size ?ys)) ([], None)"
        by (simp only: later emit_append)
      also have "take ?size ?ys @ cap ?left (drop ?size ?ys) = cap remaining ?ys"
        unfolding full by (rule cap_page [OF going])
      finally show ?thesis .
    qed
  qed
qed

lemma walk_failure:
  "failure g user = Some e \<Longrightarrow>
   walk g R query user cursor remaining
     = (if remaining = Some 0 then ([], None) else ([], Some e))"
  by (subst walk.simps) (simp add: fetchPage_failure)

section \<open>The operations on the modelled gateway\<close>

lemma destructured:
  assumes "options \<noteq> Null"
  obtains opts where "destructure_default options = Inr opts"
    and "\<And>k. get_prop opts k = get_prop options k"
  using assms by (cases options) simp_all

lemma offset_default [simp]: "offset (default_to Null cursor) = offset cursor"
  by (cases cursor) simp_all

lemma bound_default [simp]: "bound (default_to Null limit) = bound limit"
  by (cases limit) simp_all

lemma invoice_query_call:
  assumes "options \<noteq> Null"
  shows "invoice_query rest_getList chk options =
           rest_getList (invoice_resource chk)
             (Obj [(''limit'', get_prop options ''limit''),
                   (''after'', get_prop options ''after''),
                   (''before'', get_prop options ''before''),
                   (''types'', get_prop options ''types''),
                   (''invoiceIds'', get_prop options ''invoiceIds'')])
             (get_prop options ''user'')"
  using assms by (rule destructured) (simp add: invoice_query_def)

lemma corporateCard_query_call:
  assumes "options \<noteq> Null"
  shows "corporateCard_query rest_getList chk options =
           rest_getList (corporateCard_resource chk)
             (Obj [(''ids'', get_prop options ''ids''),
                   (''limit'', get_prop options ''limit''),
                   (''after'', get_prop options ''after''),
                   (''before'', get_prop options ''before''),
                   (''types'', get_prop options ''types''),
                   (''cardIds'', get_prop options ''cardIds'')])
             (get_prop options ''user'')"
  using assms by (rule destructured) (simp add: corporateCard_query_def)

lemma utilityPayment_query_call:
  assumes "options \<noteq> Null"
  shows "utilityPayment_query rest_getList options =
           rest_getList utilityPayment_resource
             (Obj [(''limit'', default_to Null (get_prop options ''limit'')),
                   (''after'', default_to Null (get_prop options ''after'')),
                   (''before'', default_to Null (get_prop options ''before'')),
                   (''types'', default_to Null (get_prop options ''types'')),
                   (''paymentIds'', default_to Null (get_prop options ''paymentIds''))])
             (default_to Null (get_prop options ''user''))"
  using assms by (rule destructured) (simp add: utilityPayment_query_def)

lemma invoice_page_call:
  assumes "options \<noteq> Null"
  shows "invoice_page rest_getPage chk options =
           rest_getPage (invoice_resource chk)
             (Obj [(''cursor'', get_prop options ''cursor''),
                   (''limit'', get_prop options ''limit''),
                   (''after'', get_prop options ''after''),
                   (''before'', get_prop options ''before''),
                   (''types'', get_prop options ''types''),
                   (''invoiceIds'', get_prop options ''invoiceIds'')])
             (get_prop options ''user'')"
  using assms by (rule destructured) (simp add: invoice_page_def)

lemma corporateCard_page_call:
  assumes "options \<noteq> Null"
  shows "corporateCard_page rest_getPage chk options =
           rest_getPage (corporateCard_resource chk)
             (Obj [(''cursor'', get_prop options ''cursor''),
                   (''limit'', get_prop options ''limit''),
                   (''after'', get_prop options ''after''),
                   (''before'', get_prop options ''before''),
                   (''types'', get_prop options ''types''),
                   (''cardIds'', get_prop options ''cardIds''),
                   (''ids'', get_prop options ''ids'')])
             (get_prop options ''user'')"
  using assms by (rule destructured) (simp add: corporateCard_page_def)

lemma utilityPayment_page_call:
  assumes "options \<noteq> Null"
  shows "utilityPayment_page rest_getPage options =
           rest_getPage utilityPayment_resource
             (Obj [(''cursor'', default_to Null (get_prop options ''cursor'')),
                   (''limit'', default_to Null (get_prop options ''limit'')),
                   (''after'', default_to Null (get_prop options ''after'')),
                   (''before'', default_to Null (get_prop options ''before'')),
                   (''types'', default_to Null (get_prop options ''types'')),
                   (''paymentIds'', default_to Null (get_prop options ''paymentIds''))])
             (default_to Null (get_prop options ''user''))"
  using assms by (rule destructured) (simp add: utilityPayment_page_def)

lemma gateway_getList_limit:
  assumes "get_prop query ''limit'' = Num n"
  shows "\<exists>s. gateway_getList g R query user = Inr s \<and> length (fst s) \<le> nat n"
  using assms walk_length [of "Some (nat n)" "nat n" g R query user Null]
  by (simp add: gateway_getList_def)

lemma gateway_getList_unbounded:
  assumes "bound (get_prop query ''limit'') = None"
  shows "gateway_getList g R query user =
           Inr (case failure g user of
                  Some e \<Rightarrow> ([], Some e)
                | None \<Rightarrow> emit R (selected g (resource_name R) query) ([], None))"
proof (cases "failure g user")
  case None
  from walk_value [OF this, of R query Null None] assms None show ?thesis
    by (simp add: gateway_getList_def)
next
  case (Some e)
  from walk_failure [OF this, of R query Null None] assms Some show ?thesis
    by (simp add: gateway_getList_def)
qed

lemma gateway_getList_origin:
  assumes "gateway_getList g R query user = Inr s" and "entity \<in> set (fst s)"
  shows "\<exists>raw \<in> set (selected g (resource_name R) query). resource_class R [raw] = Inr entity"
  using assms walk_origin [of entity g R query user Null "bound (get_prop query ''limit'')"]
  by (auto simp: gateway_getList_def)

lemma selected_type:
  assumes "raw \<in> set (selected g name query)" and "get_prop query ''types'' = Arr ts"
  shows "get_prop raw ''type'' \<in> set ts"
  using assms by (simp add: selected_def allows_type_def)

lemma gateway_getPage_result:
  assumes "gateway_getPage g R query user = Inr (entities, next)"
  shows "length entities \<le> 100
       \<and> (next = Null \<longleftrightarrow>
            drop (offset (get_prop query ''cursor'') + length entities)
              (selected g (resource_name R) query) = [])"
proof -
  from assms obtain raws where
    page: "fetchPage g (resource_name R) query (get_prop query ''cursor'')
             (bound (get_prop query ''limit'')) user = Inr (raws, next)"
    and built: "construct R raws = Inr entities"
    by (auto simp: gateway_getPage_def split: sum.splits)
  have "length entities = length raws"
    using built by (rule construct_length)
  moreover have "length raws \<le> 100"
    using fetchPage_length [OF page] page_size_le(1) [of "bound (get_prop query ''limit'')"]
    by simp
  ultimately show ?thesis
    using fetchPage_last [OF page] by simp
qed

lemma emit_replicate:
  assumes "resource_class R [raw] = Inr entity"
  shows "emit R (replicate k raw) ([], None) = (replicate k entity, None)"
  using assms by (induction k) simp_all

lemma construct_replicate:
  assumes "resource_class R [raw] = Inr entity"
  shows "construct R (replicate k raw) = Inr (replicate k entity)"
  using assms by (induction k) simp_all

section \<open>Claims about query and page\<close>

text \<open>
  C4. On the modelled gateway, \<^verbatim>\<open>query\<close> of each module returns a finite sequence
  for every gateway state. With \<^verbatim>\<open>limit: n\<close> among the options it yields at most
  \<open>n\<close> entities (none for \<open>n \<le> 0\<close>), whatever the size of the collection and so
  however many pages are walked. With \<^verbatim>\<open>limit\<close> absent or null nothing is cut: the
  sequence is the whole selection of the collection, each record mapped by the class, and
  it ends before the last selected record only by an error (of the gateway, before the
  first item, or of the class). The sequence is modelled by what it yields when consumed
  to its end, not by the moments at which its pages are fetched.
\<close>

theorem query_yields_at_most_limit:
  assumes "options \<noteq> Null"
  shows "\<exists>si sc su.
      invoice_query (gateway_getList g) chk options = Inr si
    \<and> corporateCard_query (gateway_getList g) chk options = Inr sc
    \<and> utilityPayment_query (gateway_getList g) options = Inr su
    \<and> (\<forall>n. get_prop options ''limit'' = Num n \<longrightarrow>
           length (fst si) \<le> nat n \<and> length (fst sc) \<le> nat n \<and> length (fst su) \<le> nat n)
    \<and> (get_prop options ''limit'' \<in> {Undefined, Null} \<longrightarrow>
           si = (case failure g (get_prop options ''user'') of
                   Some e \<Rightarrow> ([], Some e)
                 | None \<Rightarrow>
                     emit (invoice_resource chk)
                       (selected g ''InvoiceLog''
                          (Obj [(''limit'', get_prop options ''limit''),
                                (''after'', get_prop options ''after''),
                                (''before'', get_prop options ''before''),
                                (''types'', get_prop options ''types''),
                                (''invoiceIds'', get_prop options ''invoiceIds'')]))
                       ([], None))
         \<and> sc = (case failure g (get_prop options ''user'') of
                   Some e \<Rightarrow> ([], Some e)
                 | None \<Rightarrow>
                     emit (corporateCard_resource chk)
                       (selected g ''corporateCardLog''
                          (Obj [(''ids'', get_prop options ''ids''),
                                (''limit'', get_prop options ''limit''),
                                (''after'', get_prop options ''after''),
                                (''before'', get_prop options ''before''),
                                (''types'', get_prop options ''types''),
                                (''cardIds'', get_prop options ''cardIds'')]))
                       ([], None))
         \<and> su = (case failure g (default_to Null (get_prop options ''user'')) of
                   Some e \<Rightarrow> ([], Some e)
                 | None \<Rightarrow>
                     emit utilityPayment_resource
                       (selected g ''UtilityPaymentLog''
                          (Obj [(''limit'', Null),
                                (''after'', default_to Null (get_prop options ''after'')),
                                (''before'', default_to Null (get_prop options ''before'')),
                                (''types'', default_to Null (get_prop options ''types'')),
                                (''paymentIds'',
                                   default_to Null (get_prop options ''paymentIds''))]))
                       ([], None)))"
proof -
  let ?qi = "Obj [(''limit'', get_prop options ''limit''),
                  (''after'', get_prop options ''after''),
                  (''before'', get_prop options ''before''),
                  (''types'', get_prop options ''types''),
                  (''invoiceIds'', get_prop options ''invoiceIds'')]"
  let ?qc = "Obj [(''ids'', get_prop options ''ids''),
                  (''limit'', get_prop options ''limit''),
                  (''after'', get_prop options ''after''),
                  (''before'', get_prop options ''before''),
                  (''types'', get_prop options ''types''),
                  (''cardIds'', get_prop options ''cardIds'')]"
  let ?qu = "Obj [(''limit'', default_to Null (get_prop options ''limit'')),
                  (''after'', default_to Null (get_prop options ''after'')),
                  (''before'', default_to Null (get_prop options ''before'')),
                  (''types'', default_to Null (get_prop options ''types'')),
                  (''paymentIds'', default_to Null (get_prop options ''paymentIds''))]"
  let ?qn = "Obj [(''limit'', Null),
                  (''after'', default_to Null (get_prop options ''after'')),
                  (''before'', default_to Null (get_prop options ''before'')),
                  (''types'', default_to Null (get_prop options ''types'')),
                  (''paymentIds'', default_to Null (get_prop options ''paymentIds''))]"
  let ?u = "get_prop options ''user''"
  let ?si = "walk g (invoice_resource chk) ?qi ?u Null (bound (get_prop options ''limit''))"
  let ?sc = "walk g (corporateCard_resource chk) ?qc ?u Null (bound (get_prop options ''limit''))"
  let ?su = "walk g utilityPayment_resource ?qu (default_to Null ?u) Null
               (bound (get_prop options ''limit''))"
  have si: "invoice_query (gateway_getList g) chk options = Inr ?si"
    by (simp add: invoice_query_call [OF assms] gateway_getList_def)
  have sc: "corporateCard_query (gateway_getList g) chk options = Inr ?sc"
    by (simp add: corporateCard_query_call [OF assms] gateway_getList_def)
  have su: "utilityPayment_query (gateway_getList g) options = Inr ?su"
    by (simp add: utilityPayment_query_call [OF assms] gateway_getList_def)
  have limited: "length (fst ?si) \<le> nat n \<and> length (fst ?sc) \<le> nat n \<and> length (fst ?su) \<le> nat n"
    if "get_prop options ''limit'' = Num n" for n
    using that by (simp add: walk_length)
  have unlimited:
    "?si = (case failure g ?u of
              Some e \<Rightarrow> ([], Some e)
            | None \<Rightarrow> emit (invoice_resource chk) (selected g ''InvoiceLog'' ?qi) ([], None))
     \<and> ?sc = (case failure g ?u of
              Some e \<Rightarrow> ([], Some e)
            | None \<Rightarrow> emit (corporateCard_resource chk) (selected g ''corporateCardLog'' ?qc)
                        ([], None))
     \<and> ?su = (case failure g (default_to Null ?u) of
              Some e \<Rightarrow> ([], Some e)
            | None \<Rightarrow> emit utilityPayment_resource (selected g ''UtilityPaymentLog'' ?qn)
                        ([], None))"
    if "get_prop options ''limit'' \<in> {Undefined, Null}"
  proof -
    from that have none: "bound (get_prop options ''limit'') = None"
      by auto
    from that have null: "default_to Null (get_prop options ''limit'') = Null"
      by auto
    show ?thesis
      by (simp add: none null walk_value walk_failure invoice_resource_def
            corporateCard_resource_def utilityPayment_resource_def split: option.splits)
  qed
  show ?thesis
    by (rule exI [of _ ?si], rule exI [of _ ?sc], rule exI [of _ ?su])
       (use si sc su limited unlimited in blast)
qed
text \<open>
  A collection of 250 invoice logs and \<^verbatim>\<open>query({limit: 150})\<close>: the walk takes a
  page of 100 and a page of 50 and yields 150 entities.
\<close>

theorem query_yields_at_most_limit_witness:
  "Obj [(''limit'', Num 150)] \<noteq> Null
   \<and> get_prop (Obj [(''limit'', Num 150)]) ''limit'' = Num 150
   \<and> invoice_query
        (gateway_getList
           \<lparr>collection = (\<lambda>name. replicate 250
                            (Obj [(''id'', Str ''1''), (''type'', Str ''paid''),
                                  (''created'', Str ''2020-03-10 10:30:00.000'')])),
            failure = (\<lambda>user. None), restricts = (\<lambda>filters raw. True)\<rparr>)
        \<lparr>date = (\<lambda>v. Inr (Date 1583836200000)), datetime = Inr\<rparr>
        (Obj [(''limit'', Num 150)])
     = Inr (replicate 150
              (Obj [(''id'', Str ''1''), (''created'', Date 1583836200000),
                    (''type'', Str ''paid''), (''errors'', Undefined),
                    (''invoice'', Undefined)]), None)
   \<and> length (replicate 150
              (Obj [(''id'', Str ''1''), (''created'', Date 1583836200000),
                    (''type'', Str ''paid''), (''errors'', Undefined),
                    (''invoice'', Undefined)])) \<le> nat 150"
proof -
  let ?raw = "Obj [(''id'', Str ''1''), (''type'', Str ''paid''),
                   (''created'', Str ''2020-03-10 10:30:00.000'')]"
  let ?entity = "Obj [(''id'', Str ''1''), (''created'', Date 1583836200000),
                      (''type'', Str ''paid''), (''errors'', Undefined),
                      (''invoice'', Undefined)]"
  let ?g = "\<lparr>collection = (\<lambda>name. replicate 250 ?raw), failure = (\<lambda>user. None),
             restricts = (\<lambda>filters raw. True)\<rparr>"
  let ?chk = "\<lparr>date = (\<lambda>v. Inr (Date 1583836200000)), datetime = Inr\<rparr>"
  let ?options = "Obj [(''limit'', Num 150)]"
  have given: "?options \<noteq> Null"
    by simp
  have built: "resource_class (invoice_resource ?chk) [?raw] = Inr ?entity"
    by (simp add: invoice_resource_def Invoice_Log_value)
  have "invoice_query (gateway_getList ?g) ?chk ?options = Inr (replicate 150 ?entity, None)"
    by (simp add: invoice_query_call gateway_getList_def walk_value selected_def
          allows_type_def emit_replicate [OF built])
  with query_yields_at_most_limit [OF given, of ?g ?chk] show ?thesis
    by simp
qed

text \<open>
  C5. \<^verbatim>\<open>page\<close> of each module is the one call \<^verbatim>\<open>rest.getPage(resource, query,
  user)\<close>, for every gateway function: its result is the result of that call. On the
  modelled gateway the call fetches one page: the list returned holds at most 100
  entities, and the cursor returned with it is null exactly when no selected record lies
  behind the entities returned.
\<close>

theorem page_is_one_gateway_page:
  fixes rest_getPage :: "'r getPage"
  assumes "options \<noteq> Null"
  shows "invoice_page rest_getPage chk options
           = rest_getPage (invoice_resource chk)
               (Obj [(''cursor'', get_prop options ''cursor''),
                     (''limit'', get_prop options ''limit''),
                     (''after'', get_prop options ''after''),
                     (''before'', get_prop options ''before''),
                     (''types'', get_prop options ''types''),
                     (''invoiceIds'', get_prop options ''invoiceIds'')])
               (get_prop options ''user'')
       \<and> corporateCard_page rest_getPage chk options
           = rest_getPage (corporateCard_resource chk)
               (Obj [(''cursor'', get_prop options ''cursor''),
                     (''limit'', get_prop options ''limit''),
                     (''after'', get_prop options ''after''),
                     (''before'', get_prop options ''before''),
                     (''types'', get_prop options ''types''),
                     (''cardIds'', get_prop options ''cardIds''),
                     (''ids'', get_prop options ''ids'')])
               (get_prop options ''user'')
       \<and> utilityPayment_page rest_getPage options
           = rest_getPage utilityPayment_resource
               (Obj [(''cursor'', default_to Null (get_prop options ''cursor'')),
                     (''limit'', default_to Null (get_prop options ''limit'')),
                     (''after'', default_to Null (get_prop options ''after'')),
                     (''before'', default_to Null (get_prop options ''before'')),
                     (''types'', default_to Null (get_prop options ''types'')),
                     (''paymentIds'', default_to Null (get_prop options ''paymentIds''))])
               (default_to Null (get_prop options ''user''))
       \<and> (\<forall>entities next.
             invoice_page (gateway_getPage g) chk options = Inr (entities, next) \<longrightarrow>
               length entities \<le> 100
             \<and> (next = Null \<longleftrightarrow>
                  drop (offset (get_prop options ''cursor'') + length entities)
                    (selected g ''InvoiceLog''
                       (Obj [(''cursor'', get_prop options ''cursor''),
                             (''limit'', get_prop options ''limit''),
                             (''after'', get_prop options ''after''),
                             (''before'', get_prop options ''before''),
                             (''types'', get_prop options ''types''),
                             (''invoiceIds'', get_prop options ''invoiceIds'')])) = []))
       \<and> (\<forall>entities next.
             corporateCard_page (gateway_getPage g) chk options = Inr (entities, next) \<longrightarrow>
               length entities \<le> 100
             \<and> (next = Null \<longleftrightarrow>
                  drop (offset (get_prop options ''cursor'') + length entities)
                    (selected g ''corporateCardLog''
                       (Obj [(''cursor'', get_prop options ''cursor''),
                             (''limit'', get_prop options ''limit''),
                             (''after'', get_prop options ''after''),
                             (''before'', get_prop options ''before''),
                             (''types'', get_prop options ''types''),
                             (''cardIds'', get_prop options ''cardIds''),
                             (''ids'', get_prop options ''ids'')])) = []))
       \<and> (\<forall>entities next.
             utilityPayment_page (gateway_getPage g) options = Inr (entities, next) \<longrightarrow>
               length entities \<le> 100
             \<and> (next = Null \<longleftrightarrow>
                  drop (offset (get_prop options ''cursor'') + length entities)
                    (selected g ''UtilityPaymentLog''
                       (Obj [(''cursor'', default_to Null (get_prop options ''cursor'')),
                             (''limit'', default_to Null (get_prop options ''limit'')),
                             (''after'', default_to Null (get_prop options ''after'')),
                             (''before'', default_to Null (get_prop options ''before'')),
                             (''types'', default_to Null (get_prop options ''types'')),
                             (''paymentIds'',
                                default_to Null (get_prop options ''paymentIds''))])) = []))"
proof -
  have invoice: "length entities \<le> 100
      \<and> (next = Null \<longleftrightarrow>
           drop (offset (get_prop options ''cursor'') + length entities)
             (selected g ''InvoiceLog''
                (Obj [(''cursor'', get_prop options ''cursor''),
                      (''limit'', get_prop options ''limit''),
                      (''after'', get_prop options ''after''),
                      (''before'', get_prop options ''before''),
                      (''types'', get_prop options ''types''),
                      (''invoiceIds'', get_prop options ''invoiceIds'')])) = [])"
    if "invoice_page (gateway_getPage g) chk options = Inr (entities, next)"
    for entities "next"
    using gateway_getPage_result [OF that [unfolded invoice_page_call [OF assms]]]
    by (simp add: invoice_resource_def)
  have corporateCard: "length entities \<le> 100
      \<and> (next = Null \<longleftrightarrow>
           drop (offset (get_prop options ''cursor'') + length entities)
             (selected g ''corporateCardLog''
                (Obj [(''cursor'', get_prop options ''cursor''),
                      (''limit'', get_prop options ''limit''),
                      (''after'', get_prop options ''after''),
                      (''before'', get_prop options ''before''),
                      (''types'', get_prop options ''types''),
                      (''cardIds'', get_prop options ''cardIds''),
                      (''ids'', get_prop options ''ids'')])) = [])"
    if "corporateCard_page (gateway_getPage g) chk options = Inr (entities, next)"
    for entities "next"
    using gateway_getPage_result [OF that [unfolded corporateCard_page_call [OF assms]]]
    by (simp add: corporateCard_resource_def)
  have utilityPayment: "length entities \<le> 100
      \<and> (next = Null \<longleftrightarrow>
           drop (offset (get_prop options ''cursor'') + length entities)
             (selected g ''UtilityPaymentLog''
                (Obj [(''cursor'', default_to Null (get_prop options ''cursor'')),
                      (''limit'', default_to Null (get_prop options ''limit'')),
                      (''after'', default_to Null (get_prop options ''after'')),
                      (''before'', default_to Null (get_prop options ''before'')),
                      (''types'', default_to Null (get_prop options ''types'')),
                      (''paymentIds'',
                         default_to Null (get_prop options ''paymentIds''))])) = [])"
    if "utilityPayment_page (gateway_getPage g) options = Inr (entities, next)"
    for entities "next"
    using gateway_getPage_result [OF that [unfolded utilityPayment_page_call [OF assms]]]
    by (simp add: utilityPayment_resource_def)
  show ?thesis
    using invoice corporateCard utilityPayment
    by (simp only: invoice_page_call [OF assms] corporateCard_page_call [OF assms]
          utilityPayment_page_call [OF assms]) blast
qed

text \<open>
  The same 250 invoice logs and \<^verbatim>\<open>page({})\<close>: 100 entities and the cursor of
  the next page, since 150 records lie behind them.
\<close>

theorem page_is_one_gateway_page_witness:
  "Obj [] \<noteq> Null
   \<and> invoice_page
        (gateway_getPage
           \<lparr>collection = (\<lambda>name. replicate 250
                            (Obj [(''id'', Str ''1''), (''type'', Str ''paid''),
                                  (''created'', Str ''2020-03-10 10:30:00.000'')])),
            failure = (\<lambda>user. None), restricts = (\<lambda>filters raw. True)\<rparr>)
        \<lparr>date = (\<lambda>v. Inr (Date 1583836200000)), datetime = Inr\<rparr>
        (Obj [])
     = Inr (replicate 100
              (Obj [(''id'', Str ''1''), (''created'', Date 1583836200000),
                    (''type'', Str ''paid''), (''errors'', Undefined),
                    (''invoice'', Undefined)]), cursor_at 100)
   \<and> length (replicate 100
              (Obj [(''id'', Str ''1''), (''created'', Date 1583836200000),
                    (''type'', Str ''paid''), (''errors'', Undefined),
                    (''invoice'', Undefined)])) \<le> 100
   \<and> cursor_at 100 \<noteq> Null"
proof -
  let ?raw = "Obj [(''id'', Str ''1''), (''type'', Str ''paid''),
                   (''created'', Str ''2020-03-10 10:30:00.000'')]"
  let ?entity = "Obj [(''id'', Str ''1''), (''created'', Date 1583836200000),
                      (''type'', Str ''paid''), (''errors'', Undefined),
                      (''invoice'', Undefined)]"
  let ?g = "\<lparr>collection = (\<lambda>name. replicate 250 ?raw), failure = (\<lambda>user. None),
             restricts = (\<lambda>filters raw. True)\<rparr>"
  let ?chk = "\<lparr>date = (\<lambda>v. Inr (Date 1583836200000)), datetime = Inr\<rparr>"
  have given: "Obj [] \<noteq> Null"
    by simp
  have built: "resource_class (invoice_resource ?chk) [?raw] = Inr ?entity"
    by (simp add: invoice_resource_def Invoice_Log_value)
  have "invoice_page (gateway_getPage ?g) ?chk (Obj []) = Inr (replicate 100 ?entity, cursor_at 100)"
    by (simp add: invoice_page_call gateway_getPage_def fetchPage_value selected_def
          allows_type_def page_size_def construct_replicate [OF built])
  with page_is_one_gateway_page [OF given, of "gateway_getPage ?g" ?chk ?g] show ?thesis
    by simp
qed

text \<open>
  The two modules whose classes read the record they are given. On the modelled gateway,
  every entity that \<^verbatim>\<open>query\<close> of the invoice module yields under a filter
  \<^verbatim>\<open>types: T\<close> has its \<^verbatim>\<open>type\<close> in \<open>T\<close>: the filter object carries \<open>T\<close> to
  the gateway unchanged, the gateway selects by it, and the class stores the
  \<^verbatim>\<open>type\<close> of the record as it is. The same holds for the corporateCard module. For
  the two records of the spec's example and \<^verbatim>\<open>types: ['paid']\<close> the sequence of the
  invoice module is exactly the entity of the record with id \<^verbatim>\<open>'1'\<close>, whatever
  timestamp \<^verbatim>\<open>check.date\<close> makes of its \<^verbatim>\<open>created\<close>.
\<close>

lemma query_types_of_destructuring_classes:
  assumes "options \<noteq> Null" and "get_prop options ''types'' = Arr ts"
  shows "(\<exists>s. invoice_query (gateway_getList g) chk options = Inr s
            \<and> (\<forall>entity \<in> set (fst s). get_prop entity ''type'' \<in> set ts))
       \<and> (\<exists>s. corporateCard_query (gateway_getList g) chk options = Inr s
            \<and> (\<forall>entity \<in> set (fst s). get_prop entity ''type'' \<in> set ts))
       \<and> (\<forall>t. date chk (Str ''2020-03-10 10:30:00.000'') = Inr t \<longrightarrow>
             invoice_query
               (gateway_getList
                  \<lparr>collection = (\<lambda>name.
                     if name = ''InvoiceLog''
                     then [Obj [(''id'', Str ''1''), (''type'', Str ''paid''),
                                (''created'', Str ''2020-03-10 10:30:00.000'')],
                           Obj [(''id'', Str ''2''), (''type'', Str ''registered''),
                                (''created'', Str ''2020-03-11 10:30:00.000'')]]
                     else []),
                   failure = (\<lambda>user. None), restricts = (\<lambda>filters raw. True)\<rparr>)
               chk (Obj [(''types'', Arr [Str ''paid''])])
             = Inr ([Obj [(''id'', Str ''1''), (''created'', t), (''type'', Str ''paid''),
                          (''errors'', Undefined), (''invoice'', Undefined)]], None))"
proof (intro conjI allI impI)
  let ?qi = "Obj [(''limit'', get_prop options ''limit''),
                  (''after'', get_prop options ''after''),
                  (''before'', get_prop options ''before''),
                  (''types'', get_prop options ''types''),
                  (''invoiceIds'', get_prop options ''invoiceIds'')]"
  obtain s where s: "gateway_getList g (invoice_resource chk) ?qi (get_prop options ''user'') = Inr s"
    by (simp add: gateway_getList_def)
  have "get_prop entity ''type'' \<in> set ts" if "entity \<in> set (fst s)" for entity
  proof -
    from gateway_getList_origin [OF s that] obtain raw where
      raw: "raw \<in> set (selected g ''InvoiceLog'' ?qi)"
      and built: "Invoice_Log chk [raw] = Inr entity"
      by (auto simp: invoice_resource_def)
    from selected_type [OF raw] assms(2) have "get_prop raw ''type'' \<in> set ts"
      by simp
    with Invoice_Log_roundtrip [OF built] show ?thesis
      by simp
  qed
  with s show "\<exists>s. invoice_query (gateway_getList g) chk options = Inr s
                 \<and> (\<forall>entity \<in> set (fst s). get_prop entity ''type'' \<in> set ts)"
    by (simp add: invoice_query_call [OF assms(1)])
next
  let ?qc = "Obj [(''ids'', get_prop options ''ids''),
                  (''limit'', get_prop options ''limit''),
                  (''after'', get_prop options ''after''),
                  (''before'', get_prop options ''before''),
                  (''types'', get_prop options ''types''),
                  (''cardIds'', get_prop options ''cardIds'')]"
  obtain s where s: "gateway_getList g (corporateCard_resource chk) ?qc (get_prop options ''user'') = Inr s"
    by (simp add: gateway_getList_def)
  have "get_prop entity ''type'' \<in> set ts" if "entity \<in> set (fst s)" for entity
  proof -
    from gateway_getList_origin [OF s that] obtain raw where
      raw: "raw \<in> set (selected g ''corporateCardLog'' ?qc)"
      and built: "CorporateCard_Log chk [raw] = Inr entity"
      by (auto simp: corporateCard_resource_def)
    from selected_type [OF raw] assms(2) have "get_prop raw ''type'' \<in> set ts"
      by simp
    with CorporateCard_Log_roundtrip [OF built] show ?thesis
      by simp
  qed
  with s show "\<exists>s. corporateCard_query (gateway_getList g) chk options = Inr s
                 \<and> (\<forall>entity \<in> set (fst s). get_prop entity ''type'' \<in> set ts)"
    by (simp add: corporateCard_query_call [OF assms(1)])
next
  fix t
  assume "date chk (Str ''2020-03-10 10:30:00.000'') = Inr t"
  then show "invoice_query
               (gateway_getList
                  \<lparr>collection = (\<lambda>name.
                     if name = ''InvoiceLog''
                     then [Obj [(''id'', Str ''1''), (''type'', Str ''paid''),
                                (''created'', Str ''2020-03-10 10:30:00.000'')],
                           Obj [(''id'', Str ''2''), (''type'', Str ''registered''),
                                (''created'', Str ''2020-03-11 10:30:00.000'')]]
                     else []),
                   failure = (\<lambda>user. None), restricts = (\<lambda>filters raw. True)\<rparr>)
               chk (Obj [(''types'', Arr [Str ''paid''])])
             = Inr ([Obj [(''id'', Str ''1''), (''created'', t), (''type'', Str ''paid''),
                          (''errors'', Undefined), (''invoice'', Undefined)]], None)"
    by (simp add: invoice_query_call gateway_getList_def walk_value selected_def
          allows_type_def invoice_resource_def Invoice_Log_value)
qed

text \<open>The spec's example, with a \<^verbatim>\<open>check.date\<close> that knows the two datetimes.\<close>

lemma query_types_of_destructuring_classes_example:
  "Obj [(''types'', Arr [Str ''paid''])] \<noteq> Null
   \<and> get_prop (Obj [(''types'', Arr [Str ''paid''])]) ''types'' = Arr [Str ''paid'']
   \<and> invoice_query
        (gateway_getList
           \<lparr>collection = (\<lambda>name.
              if name = ''InvoiceLog''
              then [Obj [(''id'', Str ''1''), (''type'', Str ''paid''),
                         (''created'', Str ''2020-03-10 10:30:00.000'')],
                    Obj [(''id'', Str ''2''), (''type'', Str ''registered''),
                         (''created'', Str ''2020-03-11 10:30:00.000'')]]
              else []),
            failure = (\<lambda>user. None), restricts = (\<lambda>filters raw. True)\<rparr>)
        \<lparr>date = (\<lambda>v. if v = Str ''2020-03-10 10:30:00.000'' then Inr (Date 1583836200000)
                      else if v = Str ''2020-03-11 10:30:00.000'' then Inr (Date 1583922600000)
                      else Inl ValidationError),
         datetime = Inr\<rparr>
        (Obj [(''types'', Arr [Str ''paid''])])
     = Inr ([Obj [(''id'', Str ''1''), (''created'', Date 1583836200000),
                  (''type'', Str ''paid''), (''errors'', Undefined),
                  (''invoice'', Undefined)]], None)
   \<and> get_prop (Obj [(''id'', Str ''1''), (''created'', Date 1583836200000),
                    (''type'', Str ''paid''), (''errors'', Undefined),
                    (''invoice'', Undefined)]) ''type'' \<in> set [Str ''paid'']"
proof -
  let ?chk = "\<lparr>date = (\<lambda>v. if v = Str ''2020-03-10 10:30:00.000'' then Inr (Date 1583836200000)
                      else if v = Str ''2020-03-11 10:30:00.000'' then Inr (Date 1583922600000)
                      else Inl ValidationError),
               datetime = Inr\<rparr>"
  have given: "Obj [(''types'', Arr [Str ''paid''])] \<noteq> Null"
    by simp
  have types: "get_prop (Obj [(''types'', Arr [Str ''paid''])]) ''types'' = Arr [Str ''paid'']"
    by simp
  have parsed: "date ?chk (Str ''2020-03-10 10:30:00.000'') = Inr (Date 1583836200000)"
    by simp
  from query_types_of_destructuring_classes [OF given types, of _ ?chk] parsed show ?thesis
    by simp
qed


end
